theory Spec2Isabelle
  imports Complex_Main "HOL-Library.Multiset"
begin

section \<open>The dashboard: loading the aggregate files\<close>

text \<open>
  Every chart module exports one asynchronous \<open>init...Charts\<close> function. Each calls
  \<open>fetch\<close> on one URL as its first statement, reads the body with \<open>response.json()\<close>,
  updates the statistics and builds its charts, and returns the parsed data.

  The TypeScript annotation on the parsed body is not checked when the program runs, so a
  body is a value of one type \<open>'j\<close> of JSON values. What \<open>fetch\<close> gives for a URL is
  one of: the call throws, or a response with its \<open>ok\<close> flag and a body that parses or
  does not.
\<close>

datatype 'j body = Unparseable | Parsed 'j

datatype 'j fetch_result = FetchThrows | Response bool "'j body"

type_synonym 'j network = "string \<Rightarrow> 'j fetch_result"

text \<open>
  The statements between parsing and \<open>return data\<close> touch the document and the charting
  library, which are not part of the repository. They are a parameter: for each module,
  whether these statements run to their end on the parsed value (\<open>True\<close>) or throw.
\<close>

record 'j rendering =
  negative_price_renders :: "'j \<Rightarrow> bool"
  energy_mix_renders :: "'j \<Rightarrow> bool"
  weather_renders :: "'j \<Rightarrow> bool"
  demand_renders :: "'j \<Rightarrow> bool"
  july_comparison_renders :: "'j \<Rightarrow> bool"
  september_comparison_renders :: "'j \<Rightarrow> bool"
  model_renders :: "'j \<Rightarrow> bool"
  correlation_renders :: "'j \<Rightarrow> bool"

datatype failure = NetworkFailure | ParseFailure | RenderFailure

text \<open>How the promise settles: rejected, or resolved with the data or with \<open>null\<close>.\<close>

datatype 'j outcome = Rejects failure | Resolves "'j option"

record 'j init_result =
  fetched :: "string list"
  errors_logged :: "string list"
  settled :: "'j outcome"

text \<open>
  \<open>initNegativePriceCharts\<close> and \<open>initCorrelationCharts\<close> have neither a
  \<open>try\<close> block nor a test of \<open>response.ok\<close>.
\<close>

definition initNegativePriceCharts :: "'j network \<Rightarrow> 'j rendering \<Rightarrow> 'j init_result" where
  "initNegativePriceCharts net page =
     \<lparr>fetched = [''/data/negative_prices.json''],
      errors_logged = [],
      settled =
        (case net ''/data/negative_prices.json'' of
           FetchThrows \<Rightarrow> Rejects NetworkFailure
         | Response ok b \<Rightarrow>
             (case b of
                Unparseable \<Rightarrow> Rejects ParseFailure
              | Parsed d \<Rightarrow>
                  if negative_price_renders page d then Resolves (Some d)
                  else Rejects RenderFailure))\<rparr>"

definition initCorrelationCharts :: "'j network \<Rightarrow> 'j rendering \<Rightarrow> 'j init_result" where
  "initCorrelationCharts net page =
     \<lparr>fetched = [''/data/correlation.json''],
      errors_logged = [],
      settled =
        (case net ''/data/correlation.json'' of
           FetchThrows \<Rightarrow> Rejects NetworkFailure
         | Response ok b \<Rightarrow>
             (case b of
                Unparseable \<Rightarrow> Rejects ParseFailure
              | Parsed d \<Rightarrow>
                  if correlation_renders page d then Resolves (Some d)
                  else Rejects RenderFailure))\<rparr>"

text \<open>
  The other six wrap the same steps in \<open>try\<close>/\<open>catch\<close>, return \<open>null\<close> at once when
  \<open>response.ok\<close> is false, and in the \<open>catch\<close> branch log one line and return \<open>null\<close>.
\<close>

definition initEnergyMixCharts :: "'j network \<Rightarrow> 'j rendering \<Rightarrow> 'j init_result" where
  "initEnergyMixCharts net page =
     (case net ''/data/energy_mix.json'' of
        FetchThrows \<Rightarrow>
          \<lparr>fetched = [''/data/energy_mix.json''],
           errors_logged = [''Error loading energy mix data:''],
           settled = Resolves None\<rparr>
      | Response ok b \<Rightarrow>
          if \<not> ok then
            \<lparr>fetched = [''/data/energy_mix.json''], errors_logged = [],
             settled = Resolves None\<rparr>
          else
            (case b of
               Unparseable \<Rightarrow>
                 \<lparr>fetched = [''/data/energy_mix.json''],
                  errors_logged = [''Error loading energy mix data:''],
                  settled = Resolves None\<rparr>
             | Parsed d \<Rightarrow>
                 if energy_mix_renders page d then
                   \<lparr>fetched = [''/data/energy_mix.json''], errors_logged = [],
                    settled = Resolves (Some d)\<rparr>
                 else
                   \<lparr>fetched = [''/data/energy_mix.json''],
                    errors_logged = [''Error loading energy mix data:''],
                    settled = Resolves None\<rparr>))"

definition initWeatherCharts :: "'j network \<Rightarrow> 'j rendering \<Rightarrow> 'j init_result" where
  "initWeatherCharts net page =
     (case net ''/data/weather.json'' of
        FetchThrows \<Rightarrow>
          \<lparr>fetched = [''/data/weather.json''],
           errors_logged = [''Error loading weather data:''],
           settled = Resolves None\<rparr>
      | Response ok b \<Rightarrow>
          if \<not> ok then
            \<lparr>fetched = [''/data/weather.json''], errors_logged = [],
             settled = Resolves None\<rparr>
          else
            (case b of
               Unparseable \<Rightarrow>
                 \<lparr>fetched = [''/data/weather.json''],
                  errors_logged = [''Error loading weather data:''],
                  settled = Resolves None\<rparr>
             | Parsed d \<Rightarrow>
                 if weather_renders page d then
                   \<lparr>fetched = [''/data/weather.json''], errors_logged = [],
                    settled = Resolves (Some d)\<rparr>
                 else
                   \<lparr>fetched = [''/data/weather.json''],
                    errors_logged = [''Error loading weather data:''],
                    settled = Resolves None\<rparr>))"

definition initDemandCharts :: "'j network \<Rightarrow> 'j rendering \<Rightarrow> 'j init_result" where
  "initDemandCharts net page =
     (case net ''/data/demand.json'' of
        FetchThrows \<Rightarrow>
          \<lparr>fetched = [''/data/demand.json''],
           errors_logged = [''Error loading demand data:''],
           settled = Resolves None\<rparr>
      | Response ok b \<Rightarrow>
          if \<not> ok then
            \<lparr>fetched = [''/data/demand.json''], errors_logged = [],
             settled = Resolves None\<rparr>
          else
            (case b of
               Unparseable \<Rightarrow>
                 \<lparr>fetched = [''/data/demand.json''],
                  errors_logged = [''Error loading demand data:''],
                  settled = Resolves None\<rparr>
             | Parsed d \<Rightarrow>
                 if demand_renders page d then
                   \<lparr>fetched = [''/data/demand.json''], errors_logged = [],
                    settled = Resolves (Some d)\<rparr>
                 else
                   \<lparr>fetched = [''/data/demand.json''],
                    errors_logged = [''Error loading demand data:''],
                    settled = Resolves None\<rparr>))"

definition initJulyComparisonCharts :: "'j network \<Rightarrow> 'j rendering \<Rightarrow> 'j init_result" where
  "initJulyComparisonCharts net page =
     (case net ''/data/july_comparison.json'' of
        FetchThrows \<Rightarrow>
          \<lparr>fetched = [''/data/july_comparison.json''],
           errors_logged = [''Error loading July comparison data:''],
           settled = Resolves None\<rparr>
      | Response ok b \<Rightarrow>
          if \<not> ok then
            \<lparr>fetched = [''/data/july_comparison.json''], errors_logged = [],
             settled = Resolves None\<rparr>
          else
            (case b of
               Unparseable \<Rightarrow>
                 \<lparr>fetched = [''/data/july_comparison.json''],
                  errors_logged = [''Error loading July comparison data:''],
                  settled = Resolves None\<rparr>
             | Parsed d \<Rightarrow>
                 if july_comparison_renders page d then
                   \<lparr>fetched = [''/data/july_comparison.json''], errors_logged = [],
                    settled = Resolves (Some d)\<rparr>
                 else
                   \<lparr>fetched = [''/data/july_comparison.json''],
                    errors_logged = [''Error loading July comparison data:''],
                    settled = Resolves None\<rparr>))"

definition initSeptemberComparisonCharts ::
  "'j network \<Rightarrow> 'j rendering \<Rightarrow> 'j init_result" where
  "initSeptemberComparisonCharts net page =
     (case net ''/data/september_comparison.json'' of
        FetchThrows \<Rightarrow>
          \<lparr>fetched = [''/data/september_comparison.json''],
           errors_logged = [''Error loading September comparison data:''],
           settled = Resolves None\<rparr>
      | Response ok b \<Rightarrow>
          if \<not> ok then
            \<lparr>fetched = [''/data/september_comparison.json''], errors_logged = [],
             settled = Resolves None\<rparr>
          else
            (case b of
               Unparseable \<Rightarrow>
                 \<lparr>fetched = [''/data/september_comparison.json''],
                  errors_logged = [''Error loading September comparison data:''],
                  settled = Resolves None\<rparr>
             | Parsed d \<Rightarrow>
                 if september_comparison_renders page d then
                   \<lparr>fetched = [''/data/september_comparison.json''], errors_logged = [],
                    settled = Resolves (Some d)\<rparr>
                 else
                   \<lparr>fetched = [''/data/september_comparison.json''],
                    errors_logged = [''Error loading September comparison data:''],
                    settled = Resolves None\<rparr>))"

definition initModelCharts :: "'j network \<Rightarrow> 'j rendering \<Rightarrow> 'j init_result" where
  "initModelCharts net page =
     (case net ''/data/model_results.json'' of
        FetchThrows \<Rightarrow>
          \<lparr>fetched = [''/data/model_results.json''],
           errors_logged = [''Error loading model data:''],
           settled = Resolves None\<rparr>
      | Response ok b \<Rightarrow>
          if \<not> ok then
            \<lparr>fetched = [''/data/model_results.json''], errors_logged = [],
             settled = Resolves None\<rparr>
          else
            (case b of
               Unparseable \<Rightarrow>
                 \<lparr>fetched = [''/data/model_results.json''],
                  errors_logged = [''Error loading model data:''],
                  settled = Resolves None\<rparr>
             | Parsed d \<Rightarrow>
                 if model_renders page d then
                   \<lparr>fetched = [''/data/model_results.json''], errors_logged = [],
                    settled = Resolves (Some d)\<rparr>
                 else
                   \<lparr>fetched = [''/data/model_results.json''],
                    errors_logged = [''Error loading model data:''],
                    settled = Resolves None\<rparr>))"

text \<open>
  The \<open>DOMContentLoaded\<close> handler of \<open>main.ts\<close> calls the eight functions in the order
  of the array handed to \<open>Promise.all\<close>. An asynchronous function runs up to its first
  \<open>await\<close> when it is called, so all eight requests are issued, in this order, whatever
  becomes of any of them. \<open>Promise.all\<close> rejects as soon as one member rejects; the
  handler then logs the error line, otherwise the success line.
\<close>

datatype console_line = ChartsInitialized | ErrorInitializingCharts

fun rejected :: "'j outcome \<Rightarrow> bool" where
  "rejected (Rejects f) = True"
| "rejected (Resolves d) = False"

definition init_calls :: "'j network \<Rightarrow> 'j rendering \<Rightarrow> 'j init_result list" where
  "init_calls net page =
     [initNegativePriceCharts net page,
      initEnergyMixCharts net page,
      initWeatherCharts net page,
      initDemandCharts net page,
      initJulyComparisonCharts net page,
      initSeptemberComparisonCharts net page,
      initModelCharts net page,
      initCorrelationCharts net page]"

definition DOMContentLoaded_handler ::
  "'j network \<Rightarrow> 'j rendering \<Rightarrow> string list \<times> console_line" where
  "DOMContentLoaded_handler net page =
     (concat (map fetched (init_calls net page)),
      if list_ex (\<lambda>r. rejected (settled r)) (init_calls net page)
      then ErrorInitializingCharts else ChartsInitialized)"

text \<open>The eight aggregate files of the external-interface contract, as the spec lists them.\<close>

definition aggregate_files :: "string list" where
  "aggregate_files =
     [''negative_prices.json'', ''correlation.json'', ''energy_mix.json'', ''demand.json'',
      ''weather.json'', ''july_comparison.json'', ''september_comparison.json'',
      ''model_results.json'']"

text \<open>
  The three fetch outcomes the error-handling claim speaks of: the fetch throws, the
  response is not ok, or the body fails to parse.
\<close>

fun fetch_failed :: "'j fetch_result \<Rightarrow> bool" where
  "fetch_failed FetchThrows = True"
| "fetch_failed (Response ok Unparseable) = True"
| "fetch_failed (Response ok (Parsed d)) = (\<not> ok)"

text \<open>A network that answers every request with status not ok and a body that parses.\<close>

definition not_ok_network :: "string network" where
  "not_ok_network url = Response False (Parsed ''{}'')"

text \<open>
  A page with none of the elements the modules look up. On it every rendering step returns
  at its element test, whatever the data, except that of the demand module:
  \<open>updateDemandStats\<close> calls \<open>data.dayofweek.find\<close> before any test, which throws on
  a body without that field.
\<close>

definition bare_page :: "string rendering" where
  "bare_page =
     \<lparr>negative_price_renders = (\<lambda>d. True), energy_mix_renders = (\<lambda>d. True),
      weather_renders = (\<lambda>d. True), demand_renders = (\<lambda>d. False),
      july_comparison_renders = (\<lambda>d. True), september_comparison_renders = (\<lambda>d. True),
      model_renders = (\<lambda>d. True), correlation_renders = (\<lambda>d. True)\<rparr>"

section \<open>The dashboard: the monthly comparison chart\<close>

text \<open>
  The numbers of the data files are JSON numbers. They are modelled as reals: \<open>===\<close> on
  two finite numbers is equality of their values. A value that is not finite cannot be
  written in a JSON file the pipeline produces and is outside the model.
\<close>

record MonthlyEntry =
  year :: real
  month :: real
  count :: real

record MonthlyComparisonData =
  years :: "real list"
  data :: "MonthlyEntry list"

text \<open>
  One bar dataset. \<open>label\<close> holds the year whose \<open>toString()\<close> is the label, and
  \<open>monthlyValues\<close> is the array the source stores under \<open>data\<close>; \<open>None\<close> is \<open>null\<close>.
\<close>

record BarDataset =
  label :: real
  monthlyValues :: "real option list"
  backgroundColor :: string
  borderColor :: string
  borderWidth :: nat

record MonthlyChart =
  labels :: "string list"
  datasets :: "BarDataset list"

definition monthNames :: "string list" where
  "monthNames =
     [''Jan'', ''Feb'', ''Mrt'', ''Apr'', ''Mei'', ''Jun'', ''Jul'', ''Aug'', ''Sep'', ''Okt'',
      ''Nov'', ''Dec'']"

definition yearColors :: "real \<Rightarrow> (string \<times> string) option" where
  "yearColors y =
     (if y = 2024 then Some (''rgba(52, 152, 219, 0.7)'', ''rgb(52, 152, 219)'')
      else if y = 2025 then Some (''rgba(231, 76, 60, 0.7)'', ''rgb(231, 76, 60)'')
      else if y = 2026 then Some (''rgba(46, 204, 113, 0.7)'', ''rgb(46, 204, 113)'')
      else None)"

text \<open>
  The loop \<open>for (let month = 1; month <= 12; month++)\<close>: it looks the month up in the
  entries of the year with \<open>find\<close> and pushes the count of the entry found, or
  \<open>null\<close>. An entry is an object, so \<open>entry ? entry.count : null\<close> takes the first
  branch whenever one is found.
\<close>

function month_loop :: "MonthlyEntry list \<Rightarrow> nat \<Rightarrow> real option list \<Rightarrow> real option list" where
  "month_loop yearData m acc =
     (if m \<le> 12 then
        month_loop yearData (m + 1)
          (acc @ [case find (\<lambda>d. month d = real m) yearData of
                    Some entry \<Rightarrow> Some (count entry)
                  | None \<Rightarrow> None])
      else acc)"
  by pat_completeness auto
termination
  by (relation "measure (\<lambda>(yearData, m, acc). 13 - m)") auto

declare month_loop.simps [simp del]

definition year_dataset :: "MonthlyComparisonData \<Rightarrow> real \<Rightarrow> BarDataset" where
  "year_dataset d y =
     (let yearData = filter (\<lambda>e. year e = y) (data d) in
      \<lparr>label = y,
       monthlyValues = month_loop yearData 1 [],
       backgroundColor =
         (case yearColors y of Some c \<Rightarrow> fst c | None \<Rightarrow> ''rgba(149, 165, 166, 0.7)''),
       borderColor =
         (case yearColors y of Some c \<Rightarrow> snd c | None \<Rightarrow> ''rgb(149, 165, 166)''),
       borderWidth = 1\<rparr>)"

text \<open>
  \<open>createMonthlyComparisonChart\<close> of the negative-prices module. \<open>canvas\<close> says whether
  the element \<open>chart-monthly\<close> exists; without it the function returns before it builds
  anything. The result is the configuration handed to \<open>new Chart\<close>.
\<close>

definition createMonthlyComparisonChart :: "bool \<Rightarrow> MonthlyComparisonData \<Rightarrow> MonthlyChart option" where
  "createMonthlyComparisonChart canvas d =
     (if \<not> canvas then None
      else Some \<lparr>labels = monthNames, datasets = map (year_dataset d) (years d)\<rparr>)"

section \<open>The dashboard: the feature importance chart\<close>

record FeatureImportance =
  feature :: string
  importance :: real

text \<open>
  Arrays are objects on the heap, and \<open>sort\<close> changes the array it is called on. The
  heap is the list of the arrays allocated so far; an address is an index into it, and a
  new array gets the next index.
\<close>

type_synonym addr = nat

type_synonym heap = "FeatureImportance list list"

datatype js_error = TypeError

text \<open>\<open>[...data]\<close>: a new array with the elements of the array at \<open>a\<close>.\<close>

definition spread :: "heap \<Rightarrow> addr \<Rightarrow> heap \<times> addr" where
  "spread h a = (h @ [h ! a], length h)"

text \<open>
  \<open>Array.prototype.sort\<close> is the language's, not the repository's. ECMAScript asks for
  a stable sort that follows the comparator: \<open>x\<close> stays before \<open>y\<close> unless the comparator
  gives a positive number for them. It is modelled by a stable insertion sort.
\<close>

fun insert_by :: "('a \<Rightarrow> 'a \<Rightarrow> real) \<Rightarrow> 'a \<Rightarrow> 'a list \<Rightarrow> 'a list" where
  "insert_by cmp x [] = [x]"
| "insert_by cmp x (y # ys) = (if cmp x y \<le> 0 then x # y # ys else y # insert_by cmp x ys)"

definition array_sort :: "('a \<Rightarrow> 'a \<Rightarrow> real) \<Rightarrow> 'a list \<Rightarrow> 'a list" where
  "array_sort cmp xs = foldr (insert_by cmp) xs []"

definition sort_in_place :: "(FeatureImportance \<Rightarrow> FeatureImportance \<Rightarrow> real) \<Rightarrow> heap \<Rightarrow> addr \<Rightarrow> heap" where
  "sort_in_place cmp h a = h[a := array_sort cmp (h ! a)]"

text \<open>The comparator \<open>(a, b) => b.importance - a.importance\<close>.\<close>

definition by_importance :: "FeatureImportance \<Rightarrow> FeatureImportance \<Rightarrow> real" where
  "by_importance a b = importance b - importance a"

record FeatureChart =
  chart_labels :: "string list"
  chart_data :: "real list"
  chart_backgroundColor :: "string list"
  chart_borderColor :: "string list"

definition bar_fill :: "nat \<Rightarrow> string" where
  "bar_fill i =
     (if i = 0 then ''rgba(241, 196, 15, 0.8)''
      else if i < 3 then ''rgba(52, 152, 219, 0.7)'' else ''rgba(149, 165, 166, 0.6)'')"

definition bar_border :: "nat \<Rightarrow> string" where
  "bar_border i =
     (if i = 0 then ''rgb(241, 196, 15)''
      else if i < 3 then ''rgb(52, 152, 219)'' else ''rgb(149, 165, 166)'')"

text \<open>
  \<open>createFeatureImportanceChart\<close> of the model module, on the heap \<open>h\<close> with its
  argument \<open>data\<close> the array at address \<open>a\<close>. An address outside the heap stands for an
  argument that is not an array (a missing field), which \<open>[...data]\<close> refuses with a
  \<open>TypeError\<close>. The result is the configuration handed to \<open>new Chart\<close> and the heap
  the function leaves.
\<close>

definition createFeatureImportanceChart ::
  "bool \<Rightarrow> heap \<Rightarrow> addr \<Rightarrow> js_error + (FeatureChart option \<times> heap)" where
  "createFeatureImportanceChart canvas h a =
     (if \<not> canvas then Inr (None, h)
      else if length h \<le> a then Inl TypeError
      else
        (let (h1, s) = spread h a;
             h2 = sort_in_place by_importance h1 s;
             sorted = h2 ! s
         in Inr (Some \<lparr>chart_labels = map feature sorted,
                        chart_data = map (\<lambda>d. importance d * 100) sorted,
                        chart_backgroundColor = map bar_fill [0..<length sorted],
                        chart_borderColor = map bar_border [0..<length sorted]\<rparr>,
                 h2)))"

section \<open>The ingestion core\<close>

text \<open>
  The repository holds the dashboard only. The pipeline that produces the aggregate files
  (an incremental ingestion with a durable watermark per series) has no source file in it;
  what follows models it from the text of the specification, section by section.
\<close>

subsection \<open>Data model\<close>

text \<open>
  Modelled from the spec: the data model (section 3); no source file declares these types.
  An instant is the index of a sampling slot of a series (one per hour for the day-ahead
  price), so that "all preceding timestamps in the window" can be enumerated. The payload
  is the list of numeric values of one observation. An observation travels with the
  series it was fetched for, which is the argument of \<open>merge\<close> and a field of the
  window; its record holds the timestamp and the values.
\<close>

datatype domain = day_ahead_price | generation

record SeriesKey =
  domain :: domain
  region :: string

type_synonym instant = int

type_synonym payload = "real list"

record Watermark =
  series :: SeriesKey
  last_complete_timestamp :: instant
  updated_at :: instant

record Observation =
  timestamp :: instant
  obs_values :: payload

text \<open>
  Modelled from the spec: \<open>FetchWindow\<close> (section 3), absent from the sources. The
  lower end \<open>win_from\<close> is exclusive and equal to the watermark, the upper end
  \<open>win_to\<close> is the horizon.
\<close>

record FetchWindow =
  win_series :: SeriesKey
  win_from :: instant
  win_to :: instant

text \<open>
  Modelled from the spec: the error taxonomy (section 7), absent from the sources.
  \<open>RateLimitError\<close> carries its retry-after hint.
\<close>

datatype error =
  AuthError | RateLimitError nat | UpstreamError | ValidationError | RegressionError
  | StorageError

subsection \<open>Watermark Store\<close>

text \<open>
  Modelled from the spec: the Watermark Store (section 4.1), absent from the sources.
  \<open>get\<close> gives the watermark of a series or nothing.
\<close>

type_synonym WatermarkStore = "SeriesKey \<Rightarrow> Watermark option"

definition get :: "WatermarkStore \<Rightarrow> SeriesKey \<Rightarrow> Watermark option" where
  "get ws s = ws s"

text \<open>
  Modelled from the spec: \<open>advance\<close> of the Watermark Store (section 4.1), absent from
  the sources. It fails with \<open>RegressionError\<close> when the new timestamp is below the
  current one and writes the watermark otherwise; \<open>now\<close> is the instant of the write.
\<close>

definition advance ::
  "WatermarkStore \<Rightarrow> SeriesKey \<Rightarrow> instant \<Rightarrow> instant \<Rightarrow> error + WatermarkStore" where
  "advance ws s new_timestamp now =
     (case get ws s of
        None \<Rightarrow>
          Inr (ws(s \<mapsto> \<lparr>series = s, last_complete_timestamp = new_timestamp,
                            updated_at = now\<rparr>))
      | Some current \<Rightarrow>
          if new_timestamp < last_complete_timestamp current then Inl RegressionError
          else Inr (ws(s \<mapsto> \<lparr>series = s, last_complete_timestamp = new_timestamp,
                                updated_at = now\<rparr>)))"

subsection \<open>Raw Store\<close>

text \<open>
  Modelled from the spec: the Raw Store (section 4.4), absent from the sources. Rows are
  keyed by series and timestamp. The store keeps a log of corrections, one entry for each
  overwrite of a stored payload by a different one, which is what makes an overwrite
  observable.
\<close>

record Correction =
  corrected_series :: SeriesKey
  corrected_timestamp :: instant
  replaced :: payload
  replacement :: payload

record RawStore =
  rows :: "SeriesKey \<times> instant \<Rightarrow> payload option"
  corrections :: "Correction list"

text \<open>
  Modelled from the spec: \<open>merge\<close> of the Raw Store (section 4.4), absent from the
  sources. For one observation: an identical payload is a no-op, a differing payload for
  the same key overwrites and is recorded as a correction, a new key is written. The
  second component counts the rows written.
\<close>

definition merge_one ::
  "SeriesKey \<Rightarrow> Observation \<Rightarrow> RawStore \<times> nat \<Rightarrow> RawStore \<times> nat" where
  "merge_one s ob acc =
     (let st = fst acc; n = snd acc in
      case rows st (s, timestamp ob) of
        None \<Rightarrow> (st\<lparr>rows := (rows st)((s, timestamp ob) \<mapsto> obs_values ob)\<rparr>, n + 1)
      | Some stored \<Rightarrow>
          if stored = obs_values ob then (st, n)
          else (st\<lparr>rows := (rows st)((s, timestamp ob) \<mapsto> obs_values ob),
                    corrections := corrections st @
                      [\<lparr>corrected_series = s, corrected_timestamp = timestamp ob,
                        replaced = stored, replacement = obs_values ob\<rparr>]\<rparr>, n + 1))"

definition merge :: "SeriesKey \<Rightarrow> Observation list \<Rightarrow> RawStore \<Rightarrow> RawStore \<times> nat" where
  "merge s observations st = fold (merge_one s) observations (st, 0)"

text \<open>
  Modelled from the spec: what section 4.4 counts as a correction, read against the store
  as it was before the merge; absent from the sources. \<open>overwrites st s obs\<close> lists,
  in the order of the batch, one correction for each observation whose key holds a
  different payload in \<open>st\<close>. An observation whose key is new, or holds the same
  payload, contributes none.
\<close>

fun overwrites :: "RawStore \<Rightarrow> SeriesKey \<Rightarrow> Observation list \<Rightarrow> Correction list" where
  "overwrites st s [] = []"
| "overwrites st s (ob # obs) =
     (case rows st (s, timestamp ob) of
        None \<Rightarrow> overwrites st s obs
      | Some stored \<Rightarrow>
          if stored = obs_values ob then overwrites st s obs
          else \<lparr>corrected_series = s, corrected_timestamp = timestamp ob,
                 replaced = stored, replacement = obs_values ob\<rparr> # overwrites st s obs)"

subsection \<open>Ingestion Coordinator\<close>

text \<open>
  Modelled from the spec: the configuration of the coordinator (sections 3, 4.3 and 9),
  absent from the sources: the table of range rules per domain, and for each series the
  instant its first window starts after, used while the series has no watermark.
\<close>

record Config =
  rules :: "domain \<Rightarrow> payload \<Rightarrow> bool"
  origin :: "SeriesKey \<Rightarrow> instant"

text \<open>
  Modelled from the spec: validation (section 4.3), absent from the sources. It rejects an
  observation whose timestamp is outside \<open>[from, to]\<close>, whose timestamp occurred earlier
  in the batch (the first is kept), or whose values are out of range for the domain.
  \<open>seen\<close> holds the timestamps met so far.
\<close>

fun validate ::
  "Config \<Rightarrow> FetchWindow \<Rightarrow> instant list \<Rightarrow> Observation list \<Rightarrow> Observation list" where
  "validate cfg w seen [] = []"
| "validate cfg w seen (ob # obs) =
     (if win_from w \<le> timestamp ob \<and> timestamp ob \<le> win_to w
         \<and> timestamp ob \<notin> set seen
         \<and> rules cfg (domain (win_series w)) (obs_values ob)
      then ob # validate cfg w (timestamp ob # seen) obs
      else validate cfg w (timestamp ob # seen) obs)"

text \<open>
  Modelled from the spec: the rule of section 4.3 that the watermark advances to the
  highest timestamp for which all preceding timestamps of the window are persisted; absent
  from the sources. Starting at \<open>t\<close>, it steps over at most \<open>n\<close> slots and stops before
  the first one that is missing from \<open>ts\<close>.
\<close>

fun complete_upto :: "instant list \<Rightarrow> instant \<Rightarrow> nat \<Rightarrow> instant" where
  "complete_upto ts t 0 = t"
| "complete_upto ts t (Suc n) = (if t + 1 \<in> set ts then complete_upto ts (t + 1) n else t)"

text \<open>
  Modelled from the spec: the result of the Series Fetcher (section 4.2), absent from the
  sources: the observations its sequence produced, and the error that ended it, if any.
  The retry policy belongs to the caller; the error here is the one the run ends with.
\<close>

record Fetched =
  delivered :: "Observation list"
  failure :: "error option"

text \<open>
  Modelled from the spec: the terminal states of the per-run state machine (section 4.3)
  and what a run reports; absent from the sources. The intermediate states are the steps
  of \<open>ingest\<close> below.
\<close>

datatype run_state = DONE | FAILED | ABORTED

record RunReport =
  final :: run_state
  rows_written :: nat
  cause :: "error option"

record Stores =
  raw :: RawStore
  marks :: WatermarkStore

text \<open>
  Modelled from the spec: which errors are fatal for a run (section 7); absent from the
  sources.
\<close>

fun fatal :: "error \<Rightarrow> bool" where
  "fatal AuthError = True"
| "fatal RegressionError = True"
| "fatal StorageError = True"
| "fatal (RateLimitError hint) = False"
| "fatal UpstreamError = False"
| "fatal ValidationError = False"

text \<open>
  Modelled from the spec: one run of the Ingestion Coordinator on a given window (section
  4.3: fetch, validate, persist, advance the watermark); absent from the sources. A fatal
  error leaves the stores as they were before the run (ABORTED). A retryable one keeps
  what was persisted and does not touch the watermark (FAILED). Otherwise the watermark
  goes to the end of the complete prefix of the window, if there is one.
\<close>

definition ingest ::
  "Config \<Rightarrow> instant \<Rightarrow> FetchWindow \<Rightarrow> Fetched \<Rightarrow> Stores \<Rightarrow> RunReport \<times> Stores" where
  "ingest cfg now w f st =
     (let accepted = validate cfg w [] (delivered f);
          persisted = merge (win_series w) accepted (raw st)
      in case failure f of
           Some e \<Rightarrow>
             if fatal e then (\<lparr>final = ABORTED, rows_written = 0, cause = Some e\<rparr>, st)
             else (\<lparr>final = FAILED, rows_written = snd persisted, cause = Some e\<rparr>,
                   st\<lparr>raw := fst persisted\<rparr>)
         | None \<Rightarrow>
             (let c = complete_upto (map timestamp accepted) (win_from w)
                        (nat (win_to w - win_from w))
              in if c = win_from w then
                   (\<lparr>final = DONE, rows_written = snd persisted, cause = None\<rparr>,
                    st\<lparr>raw := fst persisted\<rparr>)
                 else
                   (case advance (marks st) (win_series w) c now of
                      Inl e \<Rightarrow> (\<lparr>final = ABORTED, rows_written = 0, cause = Some e\<rparr>, st)
                    | Inr ws \<Rightarrow>
                        (\<lparr>final = DONE, rows_written = snd persisted, cause = None\<rparr>,
                         \<lparr>raw = fst persisted, marks = ws\<rparr>))))"

text \<open>
  Modelled from the spec: the derivation of the window of a run (section 3: recomputed
  each run, its lower end the watermark); absent from the sources.
\<close>

definition window_from :: "Config \<Rightarrow> Stores \<Rightarrow> SeriesKey \<Rightarrow> instant" where
  "window_from cfg st s =
     (case get (marks st) s of Some w \<Rightarrow> last_complete_timestamp w | None \<Rightarrow> origin cfg s)"

definition fetch_window :: "Config \<Rightarrow> Stores \<Rightarrow> SeriesKey \<Rightarrow> instant \<Rightarrow> FetchWindow" where
  "fetch_window cfg st s horizon =
     \<lparr>win_series = s, win_from = window_from cfg st s, win_to = horizon\<rparr>"

definition run ::
  "Config \<Rightarrow> instant \<Rightarrow> instant \<Rightarrow> SeriesKey \<Rightarrow> Fetched \<Rightarrow> Stores \<Rightarrow> RunReport \<times> Stores" where
  "run cfg now horizon s f st = ingest cfg now (fetch_window cfg st s horizon) f st"

text \<open>
  Modelled from the spec: a sequence of runs for one series (section 5: the runs of a
  series never interleave); absent from the sources. Each trigger brings the instant of
  the run, its horizon and what the upstream answers.
\<close>

record Trigger =
  started_at :: instant
  until :: instant
  upstream :: Fetched

fun runs :: "Config \<Rightarrow> SeriesKey \<Rightarrow> Stores \<Rightarrow> Trigger list \<Rightarrow> Stores" where
  "runs cfg s st [] = st"
| "runs cfg s st (t # ts) =
     runs cfg s (snd (run cfg (started_at t) (until t) s (upstream t) st)) ts"

text \<open>
  The observations a run accepts, and the point up to which its window is complete: the
  two terms \<open>ingest\<close> computes, named for use in statements.
\<close>

definition accepted ::
  "Config \<Rightarrow> Stores \<Rightarrow> SeriesKey \<Rightarrow> instant \<Rightarrow> Fetched \<Rightarrow> Observation list" where
  "accepted cfg st s horizon f = validate cfg (fetch_window cfg st s horizon) [] (delivered f)"

definition complete_point ::
  "Config \<Rightarrow> Stores \<Rightarrow> SeriesKey \<Rightarrow> instant \<Rightarrow> Fetched \<Rightarrow> instant" where
  "complete_point cfg st s horizon f =
     complete_upto (map timestamp (accepted cfg st s horizon f)) (window_from cfg st s)
       (nat (horizon - window_from cfg st s))"

text \<open>
  The order of watermarks (an absent one is below every other), and the invariant that
  every slot after the origin up to the watermark has a row in the Raw Store.
\<close>

fun mark_le :: "Watermark option \<Rightarrow> Watermark option \<Rightarrow> bool" where
  "mark_le None w = True"
| "mark_le (Some a) None = False"
| "mark_le (Some a) (Some b) = (last_complete_timestamp a \<le> last_complete_timestamp b)"

definition covered :: "Config \<Rightarrow> SeriesKey \<Rightarrow> Stores \<Rightarrow> bool" where
  "covered cfg s st =
     (case get (marks st) s of
        None \<Rightarrow> True
      | Some w \<Rightarrow> \<forall>t. origin cfg s < t \<and> t \<le> last_complete_timestamp w
                       \<longrightarrow> rows (raw st) (s, t) \<noteq> None)"

section \<open>Sample inputs\<close>

text \<open>Concrete inputs used to exercise the results below.\<close>

definition throwing_network :: "string network" where
  "throwing_network url = FetchThrows"

definition sample_comparison :: MonthlyComparisonData where
  "sample_comparison =
     \<lparr>years = [2024, 2025],
      data = [\<lparr>year = 2024, month = 1, count = 5\<rparr>,
              \<lparr>year = 2025, month = 1, count = 9\<rparr>,
              \<lparr>year = 2024, month = 1, count = 7\<rparr>,
              \<lparr>year = 2025, month = 3, count = 2\<rparr>]\<rparr>"

definition sample_heap :: heap where
  "sample_heap =
     [[\<lparr>feature = ''solar'', importance = 2 / 10\<rparr>,
       \<lparr>feature = ''wind'', importance = 5 / 10\<rparr>,
       \<lparr>feature = ''hour'', importance = 3 / 10\<rparr>]]"

definition NL_prices :: SeriesKey where
  "NL_prices = \<lparr>domain = day_ahead_price, region = ''NL''\<rparr>"

definition sample_config :: Config where
  "sample_config =
     \<lparr>rules = (\<lambda>d v. case d of day_ahead_price \<Rightarrow> True
                        | generation \<Rightarrow> list_all (\<lambda>x. 0 \<le> x) v),
      origin = (\<lambda>s. 0)\<rparr>"

definition empty_stores :: Stores where
  "empty_stores = \<lparr>raw = \<lparr>rows = (\<lambda>k. None), corrections = []\<rparr>, marks = (\<lambda>s. None)\<rparr>"

definition gap_fetch :: Fetched where
  "gap_fetch =
     \<lparr>delivered = [\<lparr>timestamp = 1, obs_values = [30]\<rparr>, \<lparr>timestamp = 2, obs_values = [-4]\<rparr>,
                   \<lparr>timestamp = 4, obs_values = [12]\<rparr>],
      failure = None\<rparr>"

definition sample_triggers :: "Trigger list" where
  "sample_triggers =
     [\<lparr>started_at = 100, until = 5, upstream = gap_fetch\<rparr>,
      \<lparr>started_at = 101, until = 5,
       upstream = \<lparr>delivered = [\<lparr>timestamp = 3, obs_values = [7]\<rparr>],
                    failure = Some UpstreamError\<rparr>\<rparr>,
      \<lparr>started_at = 102, until = 5,
       upstream = \<lparr>delivered = [\<lparr>timestamp = 3, obs_values = [7]\<rparr>],
                    failure = Some AuthError\<rparr>\<rparr>,
      \<lparr>started_at = 103, until = 5,
       upstream = \<lparr>delivered = [\<lparr>timestamp = 3, obs_values = [7]\<rparr>,
                                 \<lparr>timestamp = 4, obs_values = [12]\<rparr>],
                    failure = None\<rparr>\<rparr>]"

definition two_row_store :: RawStore where
  "two_row_store =
     \<lparr>rows = [(NL_prices, 1) \<mapsto> [30], (NL_prices, 2) \<mapsto> [-4]], corrections = []\<rparr>"

section \<open>Results on the dashboard\<close>

lemma fetched_inits:
  "fetched (initNegativePriceCharts net page) = [''/data/negative_prices.json'']"
  "fetched (initEnergyMixCharts net page) = [''/data/energy_mix.json'']"
  "fetched (initWeatherCharts net page) = [''/data/weather.json'']"
  "fetched (initDemandCharts net page) = [''/data/demand.json'']"
  "fetched (initJulyComparisonCharts net page) = [''/data/july_comparison.json'']"
  "fetched (initSeptemberComparisonCharts net page) = [''/data/september_comparison.json'']"
  "fetched (initModelCharts net page) = [''/data/model_results.json'']"
  "fetched (initCorrelationCharts net page) = [''/data/correlation.json'']"
  by (simp_all add: initNegativePriceCharts_def initEnergyMixCharts_def initWeatherCharts_def
      initDemandCharts_def initJulyComparisonCharts_def initSeptemberComparisonCharts_def
      initModelCharts_def initCorrelationCharts_def
      split: fetch_result.split body.split)

lemma handler_requests:
  "fst (DOMContentLoaded_handler net page) =
     [''/data/negative_prices.json'', ''/data/energy_mix.json'', ''/data/weather.json'',
      ''/data/demand.json'', ''/data/july_comparison.json'',
      ''/data/september_comparison.json'', ''/data/model_results.json'',
      ''/data/correlation.json'']"
  by (simp add: DOMContentLoaded_handler_def init_calls_def fetched_inits)

text \<open>
  C2. Whatever the network answers and however the rendering goes, the requests the
  \<open>DOMContentLoaded\<close> handler issues are the eight aggregate files of the contract,
  each under \<open>/data/\<close>, each once, and nothing else. (The only calls of \<open>fetch\<close>
  in the sources are the first statements of the eight functions; the rendering steps and
  the two other functions the handler calls make none.)
\<close>

theorem handler_fetches_contract_files:
  "mset (fst (DOMContentLoaded_handler net page)) =
     mset (map (\<lambda>f. ''/data/'' @ f) aggregate_files)"
  by (simp add: handler_requests aggregate_files_def)

subsection \<open>Failures while loading\<close>

lemma guarded_inits_null:
  "fetch_failed (net ''/data/energy_mix.json'') \<Longrightarrow>
     settled (initEnergyMixCharts net page) = Resolves None"
  "fetch_failed (net ''/data/weather.json'') \<Longrightarrow>
     settled (initWeatherCharts net page) = Resolves None"
  "fetch_failed (net ''/data/demand.json'') \<Longrightarrow>
     settled (initDemandCharts net page) = Resolves None"
  "fetch_failed (net ''/data/july_comparison.json'') \<Longrightarrow>
     settled (initJulyComparisonCharts net page) = Resolves None"
  "fetch_failed (net ''/data/september_comparison.json'') \<Longrightarrow>
     settled (initSeptemberComparisonCharts net page) = Resolves None"
  "fetch_failed (net ''/data/model_results.json'') \<Longrightarrow>
     settled (initModelCharts net page) = Resolves None"
  by (auto simp: initEnergyMixCharts_def initWeatherCharts_def
      initDemandCharts_def initJulyComparisonCharts_def initSeptemberComparisonCharts_def
      initModelCharts_def split: fetch_result.splits body.splits)

lemma guarded_inits_never_reject:
  "\<not> rejected (settled (initEnergyMixCharts net page))"
  "\<not> rejected (settled (initWeatherCharts net page))"
  "\<not> rejected (settled (initDemandCharts net page))"
  "\<not> rejected (settled (initJulyComparisonCharts net page))"
  "\<not> rejected (settled (initSeptemberComparisonCharts net page))"
  "\<not> rejected (settled (initModelCharts net page))"
  by (simp_all add: initEnergyMixCharts_def initWeatherCharts_def
      initDemandCharts_def initJulyComparisonCharts_def initSeptemberComparisonCharts_def
      initModelCharts_def split: fetch_result.splits body.splits)

lemma unguarded_inits_reject:
  "net ''/data/negative_prices.json'' = FetchThrows \<or>
   net ''/data/negative_prices.json'' = Response ok Unparseable \<Longrightarrow>
     rejected (settled (initNegativePriceCharts net page))"
  "net ''/data/correlation.json'' = FetchThrows \<or>
   net ''/data/correlation.json'' = Response ok Unparseable \<Longrightarrow>
     rejected (settled (initCorrelationCharts net page))"
  by (auto simp: initNegativePriceCharts_def initCorrelationCharts_def)

lemma unguarded_inits_ignore_ok:
  "net ''/data/negative_prices.json'' = Response ok (Parsed d) \<Longrightarrow>
     settled (initNegativePriceCharts net page) =
       (if negative_price_renders page d then Resolves (Some d) else Rejects RenderFailure)"
  "net ''/data/correlation.json'' = Response ok (Parsed d) \<Longrightarrow>
     settled (initCorrelationCharts net page) =
       (if correlation_renders page d then Resolves (Some d) else Rejects RenderFailure)"
  by (simp_all add: initNegativePriceCharts_def initCorrelationCharts_def)

text \<open>
  C8, as the claim states it, fails for the two functions without a \<open>try\<close> block: a
  response that is not ok but whose body parses is not a failure to them. On a network
  that answers every request with such a response, and a page where rendering completes,
  \<open>initNegativePriceCharts\<close> and \<open>initCorrelationCharts\<close> resolve with the parsed data.
\<close>

theorem unguarded_inits_resolve_on_not_ok:
  "fetch_failed (not_ok_network ''/data/negative_prices.json'') \<and>
   settled (initNegativePriceCharts not_ok_network bare_page) = Resolves (Some ''{}'') \<and>
   fetch_failed (not_ok_network ''/data/correlation.json'') \<and>
   settled (initCorrelationCharts not_ok_network bare_page) = Resolves (Some ''{}'')"
  by (simp add: not_ok_network_def bare_page_def initNegativePriceCharts_def
      initCorrelationCharts_def)

text \<open>
  C8, amended. When the fetch throws, the response is not ok or the body fails to parse,
  each of \<open>initEnergyMixCharts\<close>, \<open>initWeatherCharts\<close>, \<open>initDemandCharts\<close>,
  \<open>initJulyComparisonCharts\<close>, \<open>initSeptemberComparisonCharts\<close> and
  \<open>initModelCharts\<close> resolves to \<open>null\<close>. \<open>initNegativePriceCharts\<close> and
  \<open>initCorrelationCharts\<close> reject when the fetch throws or the body fails to parse;
  they never look at \<open>response.ok\<close>, so a body that parses is rendered and returned
  whatever the status, and the promise rejects only if rendering throws.
\<close>

theorem init_error_handling:
  "(fetch_failed (net ''/data/energy_mix.json'') \<longrightarrow>
      settled (initEnergyMixCharts net page) = Resolves None) \<and>
   (fetch_failed (net ''/data/weather.json'') \<longrightarrow>
      settled (initWeatherCharts net page) = Resolves None) \<and>
   (fetch_failed (net ''/data/demand.json'') \<longrightarrow>
      settled (initDemandCharts net page) = Resolves None) \<and>
   (fetch_failed (net ''/data/july_comparison.json'') \<longrightarrow>
      settled (initJulyComparisonCharts net page) = Resolves None) \<and>
   (fetch_failed (net ''/data/september_comparison.json'') \<longrightarrow>
      settled (initSeptemberComparisonCharts net page) = Resolves None) \<and>
   (fetch_failed (net ''/data/model_results.json'') \<longrightarrow>
      settled (initModelCharts net page) = Resolves None) \<and>
   (net ''/data/negative_prices.json'' = FetchThrows \<or>
    (\<exists>ok. net ''/data/negative_prices.json'' = Response ok Unparseable) \<longrightarrow>
      rejected (settled (initNegativePriceCharts net page))) \<and>
   (net ''/data/correlation.json'' = FetchThrows \<or>
    (\<exists>ok. net ''/data/correlation.json'' = Response ok Unparseable) \<longrightarrow>
      rejected (settled (initCorrelationCharts net page))) \<and>
   (\<forall>ok d. net ''/data/negative_prices.json'' = Response ok (Parsed d) \<longrightarrow>
      settled (initNegativePriceCharts net page) =
        (if negative_price_renders page d then Resolves (Some d)
         else Rejects RenderFailure)) \<and>
   (\<forall>ok d. net ''/data/correlation.json'' = Response ok (Parsed d) \<longrightarrow>
      settled (initCorrelationCharts net page) =
        (if correlation_renders page d then Resolves (Some d)
         else Rejects RenderFailure))"
  using guarded_inits_null [of net page] unguarded_inits_reject [of net _ page]
    unguarded_inits_ignore_ok [of net _ _ page]
  by blast

theorem init_error_handling_witness:
  "fetch_failed (throwing_network ''/data/energy_mix.json'') \<and>
   settled (initEnergyMixCharts throwing_network bare_page) = Resolves None \<and>
   fetch_failed (not_ok_network ''/data/weather.json'') \<and>
   settled (initWeatherCharts not_ok_network bare_page) = Resolves None \<and>
   settled (initDemandCharts throwing_network bare_page) = Resolves None \<and>
   settled (initJulyComparisonCharts throwing_network bare_page) = Resolves None \<and>
   settled (initSeptemberComparisonCharts throwing_network bare_page) = Resolves None \<and>
   settled (initModelCharts not_ok_network bare_page) = Resolves None \<and>
   throwing_network ''/data/negative_prices.json'' = FetchThrows \<and>
   rejected (settled (initNegativePriceCharts throwing_network bare_page)) \<and>
   rejected (settled (initCorrelationCharts throwing_network bare_page)) \<and>
   not_ok_network ''/data/negative_prices.json'' = Response False (Parsed ''{}'') \<and>
   settled (initNegativePriceCharts not_ok_network bare_page) = Resolves (Some ''{}'') \<and>
   settled (initCorrelationCharts not_ok_network bare_page) = Resolves (Some ''{}'')"
  using init_error_handling [of throwing_network bare_page]
    init_error_handling [of not_ok_network bare_page]
  by (simp add: throwing_network_def not_ok_network_def bare_page_def
      initNegativePriceCharts_def initCorrelationCharts_def initEnergyMixCharts_def
      initWeatherCharts_def initDemandCharts_def initJulyComparisonCharts_def
      initSeptemberComparisonCharts_def initModelCharts_def)

subsection \<open>The datasets of the monthly comparison\<close>

lemma find_filter: "find P (filter Q xs) = find (\<lambda>x. Q x \<and> P x) xs"
  by (induction xs) auto

lemma month_loop_eq:
  "m \<le> 13 \<Longrightarrow>
     month_loop yd m acc =
       acc @ map (\<lambda>k. case find (\<lambda>d. month d = real k) yd of
                        Some e \<Rightarrow> Some (count e) | None \<Rightarrow> None) [m..<13]"
proof (induction yd m acc rule: month_loop.induct)
  case (1 yd m acc)
  show ?case
  proof (cases "m \<le> 12")
    case True
    then have "[m..<13] = m # [m + 1..<13]"
      by (simp add: upt_conv_Cons)
    with True 1 show ?thesis
      by (subst month_loop.simps) simp
  next
    case False
    with 1 have "m = 13" by simp
    then show ?thesis
      by (subst month_loop.simps) simp
  qed
qed

lemma year_dataset_values:
  "monthlyValues (year_dataset d y) =
     map (\<lambda>k. case find (\<lambda>e. year e = y \<and> month e = real k) (data d) of
                Some e \<Rightarrow> Some (count e) | None \<Rightarrow> None) [1..<13]"
  by (simp add: year_dataset_def month_loop_eq find_filter)

text \<open>
  C9. When the canvas exists, \<open>createMonthlyComparisonChart\<close> builds one dataset for
  each position of \<open>monthly_comparison.years\<close>. The dataset of year \<open>y\<close> has twelve
  elements, and for every month \<open>m\<close> from 1 to 12 its element at index \<open>m - 1\<close> is the
  count of the first entry of \<open>monthly_comparison.data\<close> with that year and that month,
  or \<open>null\<close> when there is none. (Without the canvas the function builds nothing.)
\<close>

theorem monthly_comparison_datasets:
  assumes "canvas" and "i < length (years d)" and "1 \<le> m" and "m \<le> 12"
  shows "\<exists>chart. createMonthlyComparisonChart canvas d = Some chart \<and>
           length (datasets chart) = length (years d) \<and>
           length (monthlyValues (datasets chart ! i)) = 12 \<and>
           monthlyValues (datasets chart ! i) ! (m - 1) =
             (case find (\<lambda>e. year e = years d ! i \<and> month e = real m) (data d) of
                Some e \<Rightarrow> Some (count e) | None \<Rightarrow> None)"
proof -
  from assms(3,4) have idx: "m - 1 < 12" and shift: "1 + (m - 1) = m"
    by simp_all
  have "[1..<13] ! (m - 1) = m"
    using idx shift by (simp del: upt_Suc)
  with assms idx show ?thesis
    by (simp add: createMonthlyComparisonChart_def year_dataset_values del: upt_Suc)
qed

theorem monthly_comparison_datasets_witness:
  "(0::nat) < length (years sample_comparison) \<and>
   (\<exists>chart. createMonthlyComparisonChart True sample_comparison = Some chart \<and>
      length (datasets chart) = 2 \<and>
      length (monthlyValues (datasets chart ! 0)) = 12 \<and>
      monthlyValues (datasets chart ! 0) ! 0 = Some 5 \<and>
      monthlyValues (datasets chart ! 0) ! 1 = None)"
  using monthly_comparison_datasets [of True 0 sample_comparison 1]
    monthly_comparison_datasets [of True 0 sample_comparison 2]
  by (simp add: sample_comparison_def createMonthlyComparisonChart_def)

subsection \<open>The order of the feature importance chart\<close>

lemma mset_insert_by: "mset (insert_by cmp x xs) = add_mset x (mset xs)"
  by (induction xs) auto

lemma mset_array_sort: "mset (array_sort cmp xs) = mset xs"
  by (induction xs) (auto simp: array_sort_def mset_insert_by)

lemma set_insert_by: "set (insert_by cmp x xs) = insert x (set xs)"
  by (induction xs) auto

lemma sorted_insert_by:
  "sorted_wrt (\<lambda>a b. importance b \<le> importance a) xs \<Longrightarrow>
   sorted_wrt (\<lambda>a b. importance b \<le> importance a) (insert_by by_importance x xs)"
  by (induction xs) (auto simp: set_insert_by by_importance_def)

lemma sorted_array_sort:
  "sorted_wrt (\<lambda>a b. importance b \<le> importance a) (array_sort by_importance xs)"
proof (induction xs)
  case Nil
  show ?case by (simp add: array_sort_def)
next
  case (Cons x xs)
  then show ?case
    using sorted_insert_by [of "array_sort by_importance xs" x]
    by (simp add: array_sort_def)
qed

text \<open>
  C10. With the canvas present and \<open>data\<close> an array, the features of the chart are the
  entries of \<open>data\<close> in an order of non-increasing importance, and every array that
  existed before the call, \<open>data\<close> among them, is as it was: the sort works on a copy.
\<close>

theorem feature_importance_sorted_copy:
  assumes "a < length h"
  shows "\<exists>chart h' s. createFeatureImportanceChart True h a = Inr (Some chart, h') \<and>
           mset s = mset (h ! a) \<and>
           sorted_wrt (\<lambda>x y. importance y \<le> importance x) s \<and>
           chart_labels chart = map feature s \<and>
           chart_data chart = map (\<lambda>d. importance d * 100) s \<and>
           take (length h) h' = h \<and> h' ! a = h ! a"
proof -
  let ?s = "array_sort by_importance (h ! a)"
  let ?h' = "h @ [?s]"
  have run: "createFeatureImportanceChart True h a =
      Inr (Some \<lparr>chart_labels = map feature ?s,
                  chart_data = map (\<lambda>d. importance d * 100) ?s,
                  chart_backgroundColor = map bar_fill [0..<length ?s],
                  chart_borderColor = map bar_border [0..<length ?s]\<rparr>, ?h')"
    using assms
    by (simp add: createFeatureImportanceChart_def spread_def sort_in_place_def Let_def
        nth_append)
  have same: "?h' ! a = h ! a"
    using assms by (simp add: nth_append)
  show ?thesis
    using run same mset_array_sort [of by_importance "h ! a"]
      sorted_array_sort [of "h ! a"]
    by (intro exI [of _ "\<lparr>chart_labels = map feature ?s,
                  chart_data = map (\<lambda>d. importance d * 100) ?s,
                  chart_backgroundColor = map bar_fill [0..<length ?s],
                  chart_borderColor = map bar_border [0..<length ?s]\<rparr>"]
        exI [of _ ?h'] exI [of _ ?s]) simp
qed

theorem feature_importance_sorted_copy_witness:
  "(0::nat) < length sample_heap \<and>
   (\<exists>chart h'. createFeatureImportanceChart True sample_heap 0 = Inr (Some chart, h') \<and>
      chart_labels chart = [''wind'', ''hour'', ''solar''] \<and>
      h' ! 0 = sample_heap ! 0)"
  using feature_importance_sorted_copy [of 0 sample_heap]
  by (simp add: sample_heap_def createFeatureImportanceChart_def spread_def
      sort_in_place_def array_sort_def by_importance_def)

section \<open>Results on the ingestion core\<close>

subsection \<open>The complete prefix of a window\<close>

lemma complete_upto_ge: "t \<le> complete_upto ts t n"
proof (induction n arbitrary: t)
  case 0
  show ?case by simp
next
  case (Suc n)
  from Suc [of "t + 1"] show ?case by simp
qed

lemma complete_upto_mem: "t < u \<Longrightarrow> u \<le> complete_upto ts t n \<Longrightarrow> u \<in> set ts"
proof (induction n arbitrary: t)
  case 0 then show ?case by simp
next
  case (Suc n)
  show ?case
  proof (cases "t + 1 \<in> set ts")
    case True
    show ?thesis
    proof (cases "u = t + 1")
      case True with \<open>t + 1 \<in> set ts\<close> show ?thesis by simp
    next
      case False
      with Suc.prems True have "t + 1 < u" "u \<le> complete_upto ts (t + 1) n" by simp_all
      then show ?thesis by (rule Suc.IH)
    qed
  next
    case False with Suc.prems show ?thesis by simp
  qed
qed

lemma complete_upto_bound: "complete_upto ts t n \<le> t + int n"
proof (induction n arbitrary: t)
  case 0
  show ?case by simp
next
  case (Suc n)
  from Suc [of "t + 1"] show ?case by simp
qed

lemma complete_upto_stop:
  "complete_upto ts t n < t + int n \<Longrightarrow> complete_upto ts t n + 1 \<notin> set ts"
  by (induction n arbitrary: t) (auto split: if_splits)

lemma merge_one_rows_mono:
  "rows (fst acc) k \<noteq> None \<Longrightarrow> rows (fst (merge_one s ob acc)) k \<noteq> None"
  by (auto simp: merge_one_def Let_def split: option.splits)

lemma merge_one_rows_new:
  "rows (fst (merge_one s ob acc)) (s, timestamp ob) \<noteq> None"
  by (auto simp: merge_one_def Let_def split: option.splits)

lemma fold_merge_rows_mono:
  "rows (fst acc) k \<noteq> None \<Longrightarrow> rows (fst (fold (merge_one s) obs acc)) k \<noteq> None"
proof (induction obs arbitrary: acc)
  case Nil
  then show ?case by simp
next
  case (Cons ob obs)
  from Cons.prems have "rows (fst (merge_one s ob acc)) k \<noteq> None"
    by (rule merge_one_rows_mono)
  then show ?case
    using Cons.IH by simp
qed

lemma fold_merge_rows_new:
  "t \<in> timestamp ` set obs \<Longrightarrow> rows (fst (fold (merge_one s) obs acc)) (s, t) \<noteq> None"
proof (induction obs arbitrary: acc)
  case Nil then show ?case by simp
next
  case (Cons ob obs)
  show ?case
  proof (cases "t = timestamp ob")
    case True
    then show ?thesis
      using fold_merge_rows_mono [of "merge_one s ob acc" "(s, t)" s obs] merge_one_rows_new [of s ob acc]
      by simp
  next
    case False
    with Cons.prems have "t \<in> timestamp ` set obs" by auto
    then show ?thesis using Cons.IH by simp
  qed
qed

lemma merge_rows_mono: "rows st k \<noteq> None \<Longrightarrow> rows (fst (merge s obs st)) k \<noteq> None"
  using fold_merge_rows_mono [of "(st, 0)" k s obs] by (simp add: merge_def)

lemma merge_rows_new: "t \<in> timestamp ` set obs \<Longrightarrow> rows (fst (merge s obs st)) (s, t) \<noteq> None"
  using fold_merge_rows_new [of t obs s "(st, 0)"] by (simp add: merge_def)

lemma validate_in_window:
  "ob \<in> set (validate cfg w seen obs) \<Longrightarrow> win_from w \<le> timestamp ob \<and> timestamp ob \<le> win_to w"
  by (induction obs arbitrary: seen) (auto split: if_splits)

lemma complete_upto_next:
  assumes "\<forall>t \<in> set ts. t \<le> hi"
  shows "complete_upto ts lo (nat (hi - lo)) + 1 \<notin> set ts"
proof (cases "complete_upto ts lo (nat (hi - lo)) < lo + int (nat (hi - lo))")
  case True
  then show ?thesis by (rule complete_upto_stop)
next
  case False
  with complete_upto_bound [of ts lo "nat (hi - lo)"]
  have "complete_upto ts lo (nat (hi - lo)) = lo + int (nat (hi - lo))" by simp
  then have "hi < complete_upto ts lo (nat (hi - lo)) + 1" by simp
  with assms show ?thesis by force
qed

subsection \<open>One run\<close>

lemma advance_forward:
  "window_from cfg st s \<le> c \<Longrightarrow> c \<noteq> window_from cfg st s \<Longrightarrow>
     advance (marks st) s c now =
       Inr ((marks st)(s \<mapsto> \<lparr>series = s, last_complete_timestamp = c, updated_at = now\<rparr>))"
  by (auto simp: advance_def window_from_def get_def split: option.splits)

lemma complete_point_ge: "window_from cfg st s \<le> complete_point cfg st s horizon f"
  unfolding complete_point_def by (rule complete_upto_ge)

lemma run_no_failure:
  assumes "failure f = None"
  shows "run cfg now horizon s f st =
     (\<lparr>final = DONE, rows_written = snd (merge s (accepted cfg st s horizon f) (raw st)),
       cause = None\<rparr>,
      \<lparr>raw = fst (merge s (accepted cfg st s horizon f) (raw st)),
       marks = (if complete_point cfg st s horizon f = window_from cfg st s then marks st
                else (marks st)(s \<mapsto> \<lparr>series = s,
                       last_complete_timestamp = complete_point cfg st s horizon f,
                       updated_at = now\<rparr>))\<rparr>)"
proof (cases "complete_point cfg st s horizon f = window_from cfg st s")
  case True
  then have "complete_upto (map timestamp (validate cfg (fetch_window cfg st s horizon) []
      (delivered f))) (window_from cfg st s) (nat (horizon - window_from cfg st s))
      = window_from cfg st s"
    by (simp add: complete_point_def accepted_def)
  with assms True show ?thesis
    by (simp add: run_def ingest_def Let_def accepted_def fetch_window_def)
next
  case False
  then have ne: "complete_upto (map timestamp (validate cfg (fetch_window cfg st s horizon) []
      (delivered f))) (window_from cfg st s) (nat (horizon - window_from cfg st s))
      \<noteq> window_from cfg st s"
    by (simp add: complete_point_def accepted_def)
  have adv: "advance (marks st) s (complete_point cfg st s horizon f) now =
       Inr ((marks st)(s \<mapsto> \<lparr>series = s,
         last_complete_timestamp = complete_point cfg st s horizon f, updated_at = now\<rparr>))"
    using complete_point_ge False by (rule advance_forward)
  from assms False ne adv show ?thesis
    by (simp add: run_def ingest_def Let_def accepted_def fetch_window_def complete_point_def)
qed

lemma run_failure:
  assumes "failure f = Some e"
  shows "run cfg now horizon s f st =
     (if fatal e then (\<lparr>final = ABORTED, rows_written = 0, cause = Some e\<rparr>, st)
      else (\<lparr>final = FAILED,
              rows_written = snd (merge s (accepted cfg st s horizon f) (raw st)),
              cause = Some e\<rparr>,
            st\<lparr>raw := fst (merge s (accepted cfg st s horizon f) (raw st))\<rparr>))"
  using assms by (simp add: run_def ingest_def Let_def accepted_def fetch_window_def)

lemma window_from_after_run:
  assumes "failure f = None"
  shows "window_from cfg (snd (run cfg now horizon s f st)) s = complete_point cfg st s horizon f"
  using assms by (simp add: run_no_failure window_from_def get_def)

lemma mark_le_refl: "mark_le m m"
  by (cases m) simp_all

lemma mark_le_trans: "mark_le a b \<Longrightarrow> mark_le b c \<Longrightarrow> mark_le a c"
  by (cases a; cases b; cases c) simp_all

lemma run_mark_le: "mark_le (marks st s) (marks (snd (run cfg now horizon s f st)) s)"
proof (cases "failure f")
  case None
  show ?thesis
  proof (cases "marks st s")
    case no_mark: None
    then show ?thesis by simp
  next
    case (Some m)
    then have "last_complete_timestamp m = window_from cfg st s"
      by (simp add: window_from_def get_def)
    with Some None complete_point_ge [of cfg st s horizon f] show ?thesis
      by (simp add: run_no_failure)
  qed
next
  case (Some e)
  then show ?thesis
    by (simp add: run_failure mark_le_refl)
qed

lemma accepted_persisted:
  assumes "window_from cfg st s < t" and "t \<le> complete_point cfg st s horizon f"
  shows "t \<in> timestamp ` set (accepted cfg st s horizon f)"
    and "rows (fst (merge s (accepted cfg st s horizon f) (raw st))) (s, t) \<noteq> None"
proof -
  from assms have "t \<in> set (map timestamp (accepted cfg st s horizon f))"
    unfolding complete_point_def by (rule complete_upto_mem)
  then show "t \<in> timestamp ` set (accepted cfg st s horizon f)" by simp
  then show "rows (fst (merge s (accepted cfg st s horizon f) (raw st))) (s, t) \<noteq> None"
    by (rule merge_rows_new)
qed

lemma covered_more_rows:
  assumes "covered cfg s st" and "marks st' = marks st"
    and "\<And>k. rows (raw st) k \<noteq> None \<Longrightarrow> rows (raw st') k \<noteq> None"
  shows "covered cfg s st'"
proof (cases "marks st s")
  case None
  with assms(2) show ?thesis by (simp add: covered_def get_def)
next
  case (Some m)
  have "rows (raw st') (s, t) \<noteq> None"
    if "origin cfg s < t" and "t \<le> last_complete_timestamp m" for t
  proof (rule assms(3))
    from assms(1) Some that show "rows (raw st) (s, t) \<noteq> None"
      by (simp add: covered_def get_def)
  qed
  with Some assms(2) show ?thesis by (simp add: covered_def get_def)
qed

lemma run_covered:
  assumes "covered cfg s st"
  shows "covered cfg s (snd (run cfg now horizon s f st))"
proof (cases "failure f")
  case (Some e)
  show ?thesis
  proof (cases "fatal e")
    case True
    with Some assms show ?thesis by (simp add: run_failure)
  next
    case False
    with Some have mk: "marks (snd (run cfg now horizon s f st)) = marks st"
      and rw: "raw (snd (run cfg now horizon s f st)) =
        fst (merge s (accepted cfg st s horizon f) (raw st))"
      by (simp_all add: run_failure)
    from assms mk show ?thesis
    proof (rule covered_more_rows)
      fix k
      assume "rows (raw st) k \<noteq> None"
      then show "rows (raw (snd (run cfg now horizon s f st))) k \<noteq> None"
        unfolding rw by (rule merge_rows_mono)
    qed
  qed
next
  case None
  let ?raw = "fst (merge s (accepted cfg st s horizon f) (raw st))"
  let ?c = "complete_point cfg st s horizon f"
  show ?thesis
  proof (cases "?c = window_from cfg st s")
    case True
    with None have mk: "marks (snd (run cfg now horizon s f st)) = marks st"
      and rw: "raw (snd (run cfg now horizon s f st)) = ?raw"
      by (simp_all add: run_no_failure)
    from assms mk show ?thesis
    proof (rule covered_more_rows)
      fix k
      assume "rows (raw st) k \<noteq> None"
      then show "rows (raw (snd (run cfg now horizon s f st))) k \<noteq> None"
        unfolding rw by (rule merge_rows_mono)
    qed
  next
    case False
    have "rows ?raw (s, t) \<noteq> None" if "origin cfg s < t" and "t \<le> ?c" for t
    proof (cases "window_from cfg st s < t")
      case True
      then show ?thesis using that(2) by (rule accepted_persisted(2))
    next
      case below: False
      with that(1) obtain m where m: "marks st s = Some m"
        and "last_complete_timestamp m = window_from cfg st s"
        by (cases "marks st s") (auto simp: window_from_def get_def)
      with below that(1) assms have "rows (raw st) (s, t) \<noteq> None"
        by (simp add: covered_def get_def)
      then show ?thesis by (rule merge_rows_mono)
    qed
    with None False show ?thesis
      by (simp add: run_no_failure covered_def get_def)
  qed
qed

lemma runs_mark_le: "mark_le (marks st s) (marks (runs cfg s st ts) s)"
proof (induction ts arbitrary: st)
  case Nil
  show ?case by (simp add: mark_le_refl)
next
  case (Cons t ts)
  let ?next = "snd (run cfg (started_at t) (until t) s (upstream t) st)"
  have "mark_le (marks st s) (marks ?next s)"
    by (rule run_mark_le)
  moreover have "mark_le (marks ?next s) (marks (runs cfg s ?next ts) s)"
    by (rule Cons)
  ultimately have "mark_le (marks st s) (marks (runs cfg s ?next ts) s)"
    by (rule mark_le_trans)
  then show ?case by simp
qed

lemma runs_covered: "covered cfg s st \<Longrightarrow> covered cfg s (runs cfg s st ts)"
  by (induction ts arbitrary: st) (simp_all add: run_covered)

subsection \<open>The watermark over a sequence of runs\<close>

text \<open>
  C1. Over every sequence of runs of a series, whichever of them fail or abort, the
  watermark does not go down; and if every slot from the origin up to the watermark had a
  row in the Raw Store before, the same holds after: the watermark only reaches an instant
  whose data, and all data before it, is persisted.
\<close>

theorem watermark_monotonic:
  "mark_le (marks st s) (marks (runs cfg s st ts) s) \<and>
   (covered cfg s st \<longrightarrow> covered cfg s (runs cfg s st ts))"
  using runs_mark_le [of st s cfg ts] runs_covered [of cfg s st ts] by blast

theorem watermark_monotonic_witness:
  "covered sample_config NL_prices empty_stores \<and>
   mark_le (marks empty_stores NL_prices)
     (marks (runs sample_config NL_prices empty_stores sample_triggers) NL_prices) \<and>
   covered sample_config NL_prices (runs sample_config NL_prices empty_stores sample_triggers) \<and>
   window_from sample_config (runs sample_config NL_prices empty_stores sample_triggers)
     NL_prices = 4"
proof -
  have c: "covered sample_config NL_prices empty_stores"
    by (simp add: covered_def get_def empty_stores_def)
  have v: "window_from sample_config
      (runs sample_config NL_prices empty_stores sample_triggers) NL_prices = 4"
    by (simp add: sample_triggers_def run_def ingest_def Let_def fetch_window_def
        window_from_def get_def empty_stores_def sample_config_def gap_fetch_def
        NL_prices_def merge_def merge_one_def advance_def eval_nat_numeral)
  from c v watermark_monotonic [of empty_stores NL_prices sample_config sample_triggers]
  show ?thesis by simp
qed

subsection \<open>Gaps\<close>

lemma accepted_le_horizon: "ob \<in> set (accepted cfg st s horizon f) \<Longrightarrow> timestamp ob \<le> horizon"
  using validate_in_window [of ob cfg "fetch_window cfg st s horizon" "[]" "delivered f"]
  by (simp add: accepted_def fetch_window_def)

lemma complete_point_next:
  "complete_point cfg st s horizon f + 1 \<notin> timestamp ` set (accepted cfg st s horizon f)"
  using complete_upto_next [of "map timestamp (accepted cfg st s horizon f)" horizon
      "window_from cfg st s"] accepted_le_horizon [of _ cfg st s horizon f]
  by (auto simp: complete_point_def)

text \<open>
  C3. A run whose fetch does not fail ends DONE, and leaves the watermark at the highest
  instant such that every slot of the window up to it was accepted and is persisted: the
  slot after it is missing from what was accepted. In particular, when the window starts
  at \<open>T1\<close> and the accepted observations are those of \<open>T1\<close>, \<open>T1 + 1\<close> and
  \<open>T1 + 3\<close> (the slot \<open>T1 + 2\<close> is missing), the watermark after the run is
  \<open>T1 + 1\<close>.
\<close>

theorem gap_safety:
  assumes "failure f = None"
  shows "final (fst (run cfg now horizon s f st)) = DONE \<and>
         window_from cfg st s \<le> window_from cfg (snd (run cfg now horizon s f st)) s \<and>
         (\<forall>t. window_from cfg st s < t \<and>
               t \<le> window_from cfg (snd (run cfg now horizon s f st)) s \<longrightarrow>
               t \<in> timestamp ` set (accepted cfg st s horizon f) \<and>
               rows (raw (snd (run cfg now horizon s f st))) (s, t) \<noteq> None) \<and>
         window_from cfg (snd (run cfg now horizon s f st)) s + 1
           \<notin> timestamp ` set (accepted cfg st s horizon f) \<and>
         (timestamp ` set (accepted cfg st s horizon f) = {T1, T1 + 1, T1 + 3} \<and>
          window_from cfg st s = T1 - 1 \<longrightarrow>
            (\<exists>m. marks (snd (run cfg now horizon s f st)) s = Some m \<and>
                 last_complete_timestamp m = T1 + 1))"
proof -
  let ?st' = "snd (run cfg now horizon s f st)"
  have wf: "window_from cfg ?st' s = complete_point cfg st s horizon f"
    using assms by (rule window_from_after_run)
  have p1: "final (fst (run cfg now horizon s f st)) = DONE"
    using assms by (simp add: run_no_failure)
  have p2: "window_from cfg st s \<le> window_from cfg ?st' s"
    using wf complete_point_ge [of cfg st s horizon f] by simp
  have p3: "\<forall>t. window_from cfg st s < t \<and> t \<le> window_from cfg ?st' s \<longrightarrow>
               t \<in> timestamp ` set (accepted cfg st s horizon f) \<and>
               rows (raw ?st') (s, t) \<noteq> None"
    using accepted_persisted [of cfg st s _ horizon f] assms wf
    by (simp add: run_no_failure)
  have p4: "window_from cfg ?st' s + 1 \<notin> timestamp ` set (accepted cfg st s horizon f)"
    using wf complete_point_next [of cfg st s horizon f] by simp
  have p5: "timestamp ` set (accepted cfg st s horizon f) = {T1, T1 + 1, T1 + 3} \<and>
      window_from cfg st s = T1 - 1 \<longrightarrow>
        (\<exists>m. marks ?st' s = Some m \<and> last_complete_timestamp m = T1 + 1)"
  proof (intro impI, elim conjE)
    assume ts: "timestamp ` set (accepted cfg st s horizon f) = {T1, T1 + 1, T1 + 3}"
      and lo: "window_from cfg st s = T1 - 1"
    let ?c = "window_from cfg ?st' s"
    have ge1: "T1 \<le> ?c"
    proof (rule ccontr)
      assume "\<not> T1 \<le> ?c"
      with p2 lo have "?c + 1 = T1" by simp
      with p4 ts show False by simp
    qed
    have ge2: "T1 + 1 \<le> ?c"
    proof (rule ccontr)
      assume "\<not> T1 + 1 \<le> ?c"
      with ge1 have "?c + 1 = T1 + 1" by simp
      with p4 ts show False by simp
    qed
    have "?c < T1 + 2"
    proof (rule ccontr)
      assume "\<not> ?c < T1 + 2"
      with lo p3 have "T1 + 2 \<in> timestamp ` set (accepted cfg st s horizon f)" by simp
      with ts show False by simp
    qed
    with ge2 have c: "?c = T1 + 1" by simp
    with lo have "complete_point cfg st s horizon f \<noteq> window_from cfg st s"
      using wf by simp
    with assms c wf
    show "\<exists>m. marks ?st' s = Some m \<and> last_complete_timestamp m = T1 + 1"
      by (simp add: run_no_failure)
  qed
  show ?thesis
    by (intro conjI p1 p2 p3 p4 p5)
qed

lemma sample_accepted:
  "accepted sample_config empty_stores NL_prices 5 gap_fetch = delivered gap_fetch"
  by (simp add: accepted_def fetch_window_def window_from_def get_def empty_stores_def
      sample_config_def gap_fetch_def NL_prices_def)

theorem gap_safety_witness:
  "failure gap_fetch = None \<and>
   timestamp ` set (accepted sample_config empty_stores NL_prices 5 gap_fetch) = {1, 2, 4} \<and>
   window_from sample_config empty_stores NL_prices = 0 \<and>
   (\<exists>m. marks (snd (run sample_config 100 5 NL_prices gap_fetch empty_stores)) NL_prices = Some m \<and>
        last_complete_timestamp m = 2)"
proof -
  have f: "failure gap_fetch = None"
    by (simp add: gap_fetch_def)
  have ts: "timestamp ` set (accepted sample_config empty_stores NL_prices 5 gap_fetch) = {1, 2, 4}"
    by (simp add: sample_accepted) (simp add: gap_fetch_def)
  have lo: "window_from sample_config empty_stores NL_prices = 0"
    by (simp add: window_from_def get_def empty_stores_def sample_config_def)
  from f ts lo gap_safety [OF f, of sample_config 100 5 NL_prices empty_stores 1]
  show ?thesis by simp
qed

subsection \<open>Merging into the Raw Store\<close>

lemma merge_one_rows:
  "rows (fst (merge_one s ob acc)) k =
     (if k = (s, timestamp ob) then Some (obs_values ob) else rows (fst acc) k)"
  by (auto simp: merge_one_def Let_def split: option.splits)

lemma merge_one_corrections:
  "corrections (fst (merge_one s ob acc)) =
     corrections (fst acc) @ overwrites (fst acc) s [ob]"
  by (auto simp: merge_one_def Let_def split: option.splits)

lemma merge_one_count:
  "snd (merge_one s ob acc) =
     snd acc + (if rows (fst acc) (s, timestamp ob) = Some (obs_values ob) then 0 else 1)"
  by (auto simp: merge_one_def Let_def split: option.splits)

lemma merge_one_identical:
  "rows st (s, timestamp ob) = Some (obs_values ob) \<Longrightarrow> merge_one s ob (st, n) = (st, n)"
  by (simp add: merge_one_def)

lemma fold_merge_identical:
  "\<forall>ob \<in> set obs. rows st (s, timestamp ob) = Some (obs_values ob) \<Longrightarrow>
     fold (merge_one s) obs (st, n) = (st, n)"
  by (induction obs) (simp_all add: merge_one_identical)

lemma fold_merge_rows:
  "rows (fst (fold (merge_one s) obs acc)) (s', t) =
     (if s' = s then
        (case find (\<lambda>ob. timestamp ob = t) (rev obs) of
           Some ob \<Rightarrow> Some (obs_values ob)
         | None \<Rightarrow> rows (fst acc) (s', t))
      else rows (fst acc) (s', t))"
proof (induction obs rule: rev_induct)
  case Nil
  show ?case by simp
next
  case (snoc ob obs)
  then show ?case by (auto simp: merge_one_rows split: option.splits)
qed

lemma find_absent: "t \<notin> f ` set xs \<Longrightarrow> find (\<lambda>x. f x = t) xs = None"
  by (induction xs) auto

lemma overwrites_append:
  "overwrites st s (xs @ ys) = overwrites st s xs @ overwrites st s ys"
  by (induction xs) (auto split: option.splits)

lemma overwrites_cong:
  "rows st' (s, timestamp ob) = rows st (s, timestamp ob) \<Longrightarrow>
     overwrites st' s [ob] = overwrites st s [ob]"
  by (simp split: option.splits)

lemma fold_merge_log:
  assumes "distinct (map timestamp obs)"
  shows "corrections (fst (fold (merge_one s) obs acc)) =
           corrections (fst acc) @ overwrites (fst acc) s obs \<and>
         snd (fold (merge_one s) obs acc) =
           snd acc + length (filter (\<lambda>ob. rows (fst acc) (s, timestamp ob) \<noteq> Some (obs_values ob)) obs)"
  using assms
proof (induction obs rule: rev_induct)
  case Nil
  show ?case by simp
next
  case (snoc ob obs)
  let ?mid = "fold (merge_one s) obs acc"
  from snoc.prems have d: "distinct (map timestamp obs)"
    and fresh: "timestamp ob \<notin> timestamp ` set obs"
    by simp_all
  from fresh have "find (\<lambda>x. timestamp x = timestamp ob) (rev obs) = None"
    by (intro find_absent) simp
  then have same: "rows (fst ?mid) (s, timestamp ob) = rows (fst acc) (s, timestamp ob)"
    by (simp add: fold_merge_rows)
  then have ov: "overwrites (fst ?mid) s [ob] = overwrites (fst acc) s [ob]"
    by (rule overwrites_cong)
  from snoc.IH [OF d] same ov show ?case
    by (simp add: merge_one_corrections merge_one_count overwrites_append del: overwrites.simps)
qed

lemma validate_fresh:
  "ob \<in> set (validate cfg w seen obs) \<Longrightarrow> timestamp ob \<notin> set seen"
proof (induction obs arbitrary: seen)
  case Nil
  then show ?case by simp
next
  case (Cons a obs)
  show ?case
  proof (cases "ob \<in> set (validate cfg w (timestamp a # seen) obs)")
    case True
    then have "timestamp ob \<notin> set (timestamp a # seen)"
      by (rule Cons.IH)
    then show ?thesis by simp
  next
    case False
    with Cons.prems show ?thesis
      by (simp split: if_splits)
  qed
qed

lemma validate_distinct: "distinct (map timestamp (validate cfg w seen obs))"
proof (induction obs arbitrary: seen)
  case Nil
  show ?case by simp
next
  case (Cons ob obs)
  have "timestamp ob \<notin> timestamp ` set (validate cfg w (timestamp ob # seen) obs)"
  proof
    assume "timestamp ob \<in> timestamp ` set (validate cfg w (timestamp ob # seen) obs)"
    then obtain later where mem: "later \<in> set (validate cfg w (timestamp ob # seen) obs)"
      and same: "timestamp later = timestamp ob"
      by auto
    from mem have "timestamp later \<notin> set (timestamp ob # seen)"
      by (rule validate_fresh)
    with same show False by simp
  qed
  with Cons [of "timestamp ob # seen"] show ?case by simp
qed

text \<open>
  C7. Merging a batch of observations of a series into the Raw Store, by key (series,
  timestamp). If every observation of the batch is already stored with an identical
  payload, the merge is a no-op: the store is unchanged and zero rows are written. In
  general every key of the batch ends with the payload of its last observation in the
  batch, and every other row is as before. When the timestamps of the batch are distinct
  (as they are in every batch the coordinator passes, by \<open>validate_distinct\<close>), the
  corrections log grows by exactly one entry for each observation that replaced a
  different stored payload, naming the old and the new payload, and by none for an
  initial write or an identical payload, so the log tells an overwrite from an initial
  write; the count returned is the number of observations that were not already stored
  identically.
\<close>

theorem merge_batch_semantics:
  "((\<forall>ob \<in> set obs. rows st (s, timestamp ob) = Some (obs_values ob)) \<longrightarrow>
      merge s obs st = (st, 0)) \<and>
   (\<forall>s' t. rows (fst (merge s obs st)) (s', t) =
      (if s' = s then
         (case find (\<lambda>ob. timestamp ob = t) (rev obs) of
            Some ob \<Rightarrow> Some (obs_values ob)
          | None \<Rightarrow> rows st (s', t))
       else rows st (s', t))) \<and>
   (distinct (map timestamp obs) \<longrightarrow>
      corrections (fst (merge s obs st)) = corrections st @ overwrites st s obs \<and>
      snd (merge s obs st) =
        length (filter (\<lambda>ob. rows st (s, timestamp ob) \<noteq> Some (obs_values ob)) obs))"
proof (intro conjI impI allI)
  assume "\<forall>ob \<in> set obs. rows st (s, timestamp ob) = Some (obs_values ob)"
  then show "merge s obs st = (st, 0)"
    unfolding merge_def by (rule fold_merge_identical)
next
  fix s' t
  show "rows (fst (merge s obs st)) (s', t) =
      (if s' = s then
         (case find (\<lambda>ob. timestamp ob = t) (rev obs) of
            Some ob \<Rightarrow> Some (obs_values ob)
          | None \<Rightarrow> rows st (s', t))
       else rows st (s', t))"
    using fold_merge_rows [of s obs "(st, 0)" s' t]
    by (auto simp: merge_def split: option.splits)
next
  assume d: "distinct (map timestamp obs)"
  show "corrections (fst (merge s obs st)) = corrections st @ overwrites st s obs"
    using fold_merge_log [OF d, of s "(st, 0)"] by (simp add: merge_def)
  show "snd (merge s obs st) =
      length (filter (\<lambda>ob. rows st (s, timestamp ob) \<noteq> Some (obs_values ob)) obs)"
    using fold_merge_log [OF d, of s "(st, 0)"] by (simp add: merge_def)
qed

theorem merge_batch_semantics_witness:
  "rows two_row_store (NL_prices, 1) = Some [30] \<and>
   rows two_row_store (NL_prices, 2) = Some [-4] \<and>
   merge NL_prices [\<lparr>timestamp = 1, obs_values = [30]\<rparr>, \<lparr>timestamp = 2, obs_values = [-4]\<rparr>]
     two_row_store = (two_row_store, 0) \<and>
   distinct (map timestamp [\<lparr>timestamp = 1, obs_values = [31]\<rparr>,
      \<lparr>timestamp = 2, obs_values = [-4]\<rparr>, \<lparr>timestamp = 3, obs_values = [8]\<rparr>]) \<and>
   rows (fst (merge NL_prices [\<lparr>timestamp = 1, obs_values = [31]\<rparr>,
      \<lparr>timestamp = 2, obs_values = [-4]\<rparr>, \<lparr>timestamp = 3, obs_values = [8]\<rparr>] two_row_store))
     (NL_prices, 1) = Some [31] \<and>
   rows (fst (merge NL_prices [\<lparr>timestamp = 1, obs_values = [31]\<rparr>,
      \<lparr>timestamp = 2, obs_values = [-4]\<rparr>, \<lparr>timestamp = 3, obs_values = [8]\<rparr>] two_row_store))
     (NL_prices, 3) = Some [8] \<and>
   corrections (fst (merge NL_prices [\<lparr>timestamp = 1, obs_values = [31]\<rparr>,
      \<lparr>timestamp = 2, obs_values = [-4]\<rparr>, \<lparr>timestamp = 3, obs_values = [8]\<rparr>] two_row_store)) =
     [\<lparr>corrected_series = NL_prices, corrected_timestamp = 1, replaced = [30],
       replacement = [31]\<rparr>] \<and>
   snd (merge NL_prices [\<lparr>timestamp = 1, obs_values = [31]\<rparr>,
      \<lparr>timestamp = 2, obs_values = [-4]\<rparr>, \<lparr>timestamp = 3, obs_values = [8]\<rparr>] two_row_store) = 2"
  using merge_batch_semantics [of "[\<lparr>timestamp = 1, obs_values = [30]\<rparr>, \<lparr>timestamp = 2, obs_values = [-4]\<rparr>]"
      two_row_store NL_prices]
    merge_batch_semantics [of "[\<lparr>timestamp = 1, obs_values = [31]\<rparr>,
      \<lparr>timestamp = 2, obs_values = [-4]\<rparr>, \<lparr>timestamp = 3, obs_values = [8]\<rparr>]" two_row_store NL_prices]
  by (simp add: two_row_store_def NL_prices_def)

end
